theory Spec2Isabelle
  imports Complex_Main
begin

section \<open>Data model\<close>

text \<open>
  The \<^verbatim>\<open>Course\<close> interface of \<^verbatim>\<open>lib/memberstack-admin.ts\<close>. Every field is read
  with JavaScript's optional access, so each one is an option: \<open>None\<close> is
  \<^verbatim>\<open>undefined\<close>. The field \<^verbatim>\<open>id\<close> is \<open>cid\<close> here. Numbers are rationals,
  the exact values of the decimal literals. The handlers below compute with
  them exactly; the rounding of doubles is taken into account where the price
  round trip is defined, as a parameter.
\<close>

record course =
  cid :: "string option"
  title :: "string option"
  description :: "string option"
  owner_id :: "string option"
  video_link :: "string option"
  thumbnail_url :: "string option"
  price :: "rat option"
  status :: "string option"
  duration :: "rat option"
  category :: "string option"
  tags :: "string list option"
  created_at :: "string option"
  updated_at :: "string option"
  priceCents :: "rat option"
  lessons :: "string option"

definition no_fields :: course where
  "no_fields = \<lparr>cid = None, title = None, description = None, owner_id = None,
     video_link = None, thumbnail_url = None, price = None, status = None,
     duration = None, category = None, tags = None, created_at = None,
     updated_at = None, priceCents = None, lessons = None\<rparr>"

text \<open>
  The member object \<^verbatim>\<open>verifyToken\<close> resolves to. The verify-token route answers
  \<^verbatim>\<open>{id, memberId, type}\<close>; the handlers read \<^verbatim>\<open>member.id\<close>
  (\<open>member_id\<close> here) and \<^verbatim>\<open>member.memberId\<close>.
\<close>

record member =
  member_id :: "string option"
  memberId :: "string option"

text \<open>JavaScript truthiness of an optional string and of an optional number.\<close>

definition truthy :: "string option \<Rightarrow> bool" where
  "truthy v = (case v of None \<Rightarrow> False | Some s \<Rightarrow> s \<noteq> [])"

definition truthy_num :: "rat option \<Rightarrow> bool" where
  "truthy_num v = (case v of None \<Rightarrow> False | Some r \<Rightarrow> r \<noteq> 0)"

text \<open>\<^verbatim>\<open>a || b\<close> on optional strings.\<close>

definition or_else :: "string option \<Rightarrow> string option \<Rightarrow> string option" where
  "or_else a b = (if truthy a then a else b)"

text \<open>
  The server: its two configuration values, the token verification of
  \<^verbatim>\<open>lib/memberstack-api.ts\<close> (\<open>None\<close> when the token does not verify or the
  call fails), the rows of the external \<^verbatim>\<open>courses\<close> table, each already
  flattened to a course carrying its record id, and the two clock readings an
  update takes (one in the route, one in \<^verbatim>\<open>updateCourse\<close>).
\<close>

record server =
  secretKey :: "string option"
  appId :: "string option"
  verifyToken :: "string \<Rightarrow> member option"
  courses :: "course list"
  now_route :: string
  now_admin :: string

definition configured :: "server \<Rightarrow> bool" where
  "configured srv = (truthy (secretKey srv) \<and> truthy (appId srv))"

datatype body =
    ErrorBody string
  | CourseBody course
  | CoursesBody "course list"
  | DeletedBody

record response =
  http_status :: nat
  payload :: body

definition respond :: "nat \<Rightarrow> body \<Rightarrow> response" where
  "respond st b = \<lparr>http_status = st, payload = b\<rparr>"

section \<open>Request authentication\<close>

text \<open>
  \<^verbatim>\<open>authHeader?.startsWith("Bearer ") ? authHeader.substring(7) : null\<close>
\<close>

definition bearer :: "string option \<Rightarrow> string option" where
  "bearer authHeader =
     (case authHeader of
        None \<Rightarrow> None
      | Some h \<Rightarrow> if take 7 h = ''Bearer '' then Some (drop 7 h) else None)"

text \<open>
  The optional authentication of the two GET handlers:
  \<^verbatim>\<open>let member = null; if (token) { member = await verifyToken(token) }\<close>
\<close>

definition optional_member :: "server \<Rightarrow> string option \<Rightarrow> member option" where
  "optional_member srv authHeader =
     (case bearer authHeader of
        None \<Rightarrow> None
      | Some token \<Rightarrow> if token = [] then None else verifyToken srv token)"

section \<open>Admin helpers over the table\<close>

text \<open>
  \<^verbatim>\<open>getCourse\<close> asks the data-table service for the record with the given
  id, by three queries in turn, and answers the record flattened with its id,
  or \<^verbatim>\<open>null\<close>. Over the table that is a lookup by id. A service that cannot
  be reached or answers with an error is outside the model.
\<close>

definition getCourse :: "server \<Rightarrow> string \<Rightarrow> course option" where
  "getCourse srv courseId = find (\<lambda>c. cid c = Some courseId) (courses srv)"

text \<open>
  The price every read path reports:
  \<^verbatim>\<open>course.priceCents ? course.priceCents / 100 : (course.price || 0)\<close>
\<close>

definition read_price :: "course \<Rightarrow> rat" where
  "read_price c =
     (if truthy_num (priceCents c) then the (priceCents c) / 100
      else if truthy_num (price c) then the (price c) else 0)"

section \<open>GET /api/courses/[id]\<close>

definition isPublished :: "course \<Rightarrow> bool" where
  "isPublished c = (status c = Some ''published'' \<or> status c = None)"

definition isOwner :: "member option \<Rightarrow> course \<Rightarrow> bool" where
  "isOwner m c =
     (case m of
        None \<Rightarrow> False
      | Some mem \<Rightarrow>
          truthy (owner_id c) \<and>
          (member_id mem = owner_id c \<or> memberId mem = owner_id c))"

definition GET_course :: "server \<Rightarrow> string option \<Rightarrow> string \<Rightarrow> response" where
  "GET_course srv authHeader courseId =
     (if \<not> configured srv then respond 500 (ErrorBody ''Server configuration error'')
      else
        let m = optional_member srv authHeader in
        case getCourse srv courseId of
          None \<Rightarrow> respond 404 (ErrorBody ''Course not found'')
        | Some c \<Rightarrow>
            if \<not> isPublished c \<and> \<not> isOwner m c
            then respond 404 (ErrorBody ''Course not found or access denied'')
            else respond 200 (CourseBody (c\<lparr>price := Some (read_price c)\<rparr>)))"

section \<open>GET /api/courses\<close>

text \<open>
  \<^verbatim>\<open>listCourses(ownerId)\<close>: the query carries a \<^verbatim>\<open>where owner_id equals\<close>
  clause when an owner is given. The paging loop of the helper is not modelled:
  the table is read whole.
\<close>

definition listCourses :: "server \<Rightarrow> string option \<Rightarrow> course list" where
  "listCourses srv ownerId =
     (case ownerId of
        None \<Rightarrow> courses srv
      | Some ow \<Rightarrow> filter (\<lambda>c. owner_id c = Some ow) (courses srv))"

definition processCourse :: "course \<Rightarrow> course" where
  "processCourse c =
     c\<lparr>price := Some (read_price c),
       status := or_else (status c) (Some ''published'')\<rparr>"

definition GET_courses :: "server \<Rightarrow> string option \<Rightarrow> string option \<Rightarrow> response" where
  "GET_courses srv authHeader ownerId =
     (if \<not> configured srv then respond 500 (ErrorBody ''Server configuration error'')
      else
        let m = optional_member srv authHeader in
        if truthy ownerId \<and> m = None
        then respond 401 (ErrorBody ''Authentication required to filter by owner_id'')
        else
          let processedCourses =
                map processCourse (listCourses srv (if truthy ownerId then ownerId else None));
              filteredCourses =
                (if m = None \<and> \<not> truthy ownerId
                 then filter (\<lambda>c. status c = Some ''published'') processedCourses
                 else processedCourses)
          in respond 200 (CoursesBody filteredCourses))"

section \<open>PUT and DELETE /api/courses/[id]\<close>

text \<open>
  The data-table service is an external collaborator. Its record update
  (\<^verbatim>\<open>PUT /v2/data-tables/courses/records/:id\<close> with \<^verbatim>\<open>{data: updateData}\<close>) is
  modelled as a field-wise overwrite: a field the payload carries replaces the
  stored one, every other field stays. A record id the table does not hold is
  answered with an error, which the helpers rethrow (\<open>None\<close>).
\<close>

definition overwrite :: "'a option \<Rightarrow> 'a option \<Rightarrow> 'a option" where
  "overwrite new old = (case new of None \<Rightarrow> old | Some v \<Rightarrow> Some v)"

definition apply_update :: "course \<Rightarrow> course \<Rightarrow> course" where
  "apply_update updateData row =
     \<lparr>cid = cid row,
      title = overwrite (title updateData) (title row),
      description = overwrite (description updateData) (description row),
      owner_id = overwrite (owner_id updateData) (owner_id row),
      video_link = overwrite (video_link updateData) (video_link row),
      thumbnail_url = overwrite (thumbnail_url updateData) (thumbnail_url row),
      price = overwrite (price updateData) (price row),
      status = overwrite (status updateData) (status row),
      duration = overwrite (duration updateData) (duration row),
      category = overwrite (category updateData) (category row),
      tags = overwrite (tags updateData) (tags row),
      created_at = overwrite (created_at updateData) (created_at row),
      updated_at = overwrite (updated_at updateData) (updated_at row),
      priceCents = overwrite (priceCents updateData) (priceCents row),
      lessons = overwrite (lessons updateData) (lessons row)\<rparr>"

definition updateCourse :: "server \<Rightarrow> string \<Rightarrow> course \<Rightarrow> (server \<times> course) option" where
  "updateCourse srv courseId updates =
     (let updateData = updates\<lparr>updated_at := Some (now_admin srv)\<rparr> in
      case getCourse srv courseId of
        None \<Rightarrow> None
      | Some row \<Rightarrow>
          Some (srv\<lparr>courses :=
                   map (\<lambda>c. if cid c = Some courseId then apply_update updateData c else c)
                     (courses srv)\<rparr>,
                apply_update updateData row))"

definition deleteCourse :: "server \<Rightarrow> string \<Rightarrow> server option" where
  "deleteCourse srv courseId =
     (case getCourse srv courseId of
        None \<Rightarrow> None
      | Some row \<Rightarrow>
          Some (srv\<lparr>courses := filter (\<lambda>c. cid c \<noteq> Some courseId) (courses srv)\<rparr>))"

text \<open>\<^verbatim>\<open>Math.round\<close>: the nearest integer, a half rounding up.\<close>

definition Math_round :: "rat \<Rightarrow> rat" where
  "Math_round x = of_int \<lfloor>x + 1 / 2\<rfloor>"

text \<open>
  The mandatory authentication shared by PUT, DELETE and the seeding POST: a
  missing token and a token that does not verify are both answered 401.
\<close>

definition required_member :: "server \<Rightarrow> string option \<Rightarrow> response + member" where
  "required_member srv authHeader =
     (case bearer authHeader of
        None \<Rightarrow> Inl (respond 401 (ErrorBody ''Authentication required''))
      | Some token \<Rightarrow>
          if token = [] then Inl (respond 401 (ErrorBody ''Authentication required''))
          else (case verifyToken srv token of
                  None \<Rightarrow> Inl (respond 401 (ErrorBody ''Invalid token''))
                | Some m \<Rightarrow> Inr m))"

text \<open>
  The updates the route hands to \<^verbatim>\<open>updateCourse\<close>: the body with
  \<^verbatim>\<open>updated_at\<close> set, \<^verbatim>\<open>id\<close> and \<^verbatim>\<open>created_at\<close> deleted, and a truthy
  \<^verbatim>\<open>price\<close> replaced by \<^verbatim>\<open>priceCents\<close>.
\<close>

definition strip_updates :: "server \<Rightarrow> course \<Rightarrow> course" where
  "strip_updates srv body =
     body\<lparr>updated_at := Some (now_route srv), cid := None, created_at := None\<rparr>"

definition derive_priceCents :: "course \<Rightarrow> course" where
  "derive_priceCents updates =
     (if truthy_num (price updates)
      then updates\<lparr>priceCents := Some (Math_round (the (price updates) * 100)),
                   price := None\<rparr>
      else updates)"

text \<open>
  The request body is \<open>Unparsed\<close>, with the message of the error, when
  \<^verbatim>\<open>request.json()\<close> throws; the outer \<^verbatim>\<open>catch\<close> answers 500 with
  \<^verbatim>\<open>error?.message || "Failed to update course"\<close>. The handler returns its
  response and the server after the request.
\<close>

datatype json_body = Parsed course | Unparsed string

definition PUT_course ::
  "server \<Rightarrow> string option \<Rightarrow> string \<Rightarrow> json_body \<Rightarrow> response \<times> server" where
  "PUT_course srv authHeader courseId body =
     (if \<not> configured srv
      then (respond 500 (ErrorBody ''Server configuration error''), srv)
      else (case required_member srv authHeader of
        Inl r \<Rightarrow> (r, srv)
      | Inr m \<Rightarrow>
         (case body of
            Unparsed message \<Rightarrow>
              (respond 500
                 (ErrorBody (if message = [] then ''Failed to update course'' else message)),
               srv)
          | Parsed b \<Rightarrow>
             (let updates = strip_updates srv b in
              (case getCourse srv courseId of
                None \<Rightarrow> (respond 404 (ErrorBody ''Course not found''), srv)
              | Some existingCourse \<Rightarrow>
                  if owner_id existingCourse \<noteq> or_else (member_id m) (memberId m)
                  then (respond 403
                          (ErrorBody ''You don't have permission to update this course''), srv)
                  else (case updateCourse srv courseId (derive_priceCents updates) of
                          None \<Rightarrow> (respond 500 (ErrorBody ''Failed to update course''), srv)
                        | Some (srv', c) \<Rightarrow>
                            (respond 200 (CourseBody (c\<lparr>price := Some (read_price c)\<rparr>)),
                             srv')))))))"

definition DELETE_course ::
  "server \<Rightarrow> string option \<Rightarrow> string \<Rightarrow> response \<times> server" where
  "DELETE_course srv authHeader courseId =
     (if \<not> configured srv
      then (respond 500 (ErrorBody ''Server configuration error''), srv)
      else (case required_member srv authHeader of
        Inl r \<Rightarrow> (r, srv)
      | Inr m \<Rightarrow>
         (case getCourse srv courseId of
            None \<Rightarrow> (respond 404 (ErrorBody ''Course not found''), srv)
          | Some existingCourse \<Rightarrow>
              if owner_id existingCourse \<noteq> or_else (member_id m) (memberId m)
              then (respond 403
                      (ErrorBody ''You don't have permission to delete this course''), srv)
              else (case deleteCourse srv courseId of
                      None \<Rightarrow> (respond 500 (ErrorBody ''Failed to delete course''), srv)
                    | Some srv' \<Rightarrow> (respond 200 DeletedBody, srv')))))"

section \<open>The price on the way in and out\<close>

text \<open>
  The creating POST stores \<^verbatim>\<open>priceCents: price ? Math.round(price * 100) : 0\<close>
  and no \<^verbatim>\<open>price\<close>; every read path reports
  \<^verbatim>\<open>course.priceCents ? course.priceCents / 100 : (course.price || 0)\<close>.
  The product and the quotient are operations on doubles: \<open>fl\<close> is the
  rounding of the exact result to the double the operation returns.
  \<^verbatim>\<open>Math.round\<close> of a double is exact. The round trip of a price is what a
  reader sees of a course created with it.
\<close>

definition created_priceCents :: "(rat \<Rightarrow> rat) \<Rightarrow> rat option \<Rightarrow> rat" where
  "created_priceCents fl p = (if truthy_num p then Math_round (fl (the p * 100)) else 0)"

definition read_price_rounded :: "(rat \<Rightarrow> rat) \<Rightarrow> course \<Rightarrow> rat" where
  "read_price_rounded fl c =
     (if truthy_num (priceCents c) then fl (the (priceCents c) / 100)
      else if truthy_num (price c) then the (price c) else 0)"

definition price_round_trip :: "(rat \<Rightarrow> rat) \<Rightarrow> rat \<Rightarrow> rat" where
  "price_round_trip fl p =
     read_price_rounded fl (no_fields\<lparr>priceCents := Some (created_priceCents fl (Some p))\<rparr>)"

section \<open>POST /api/seed-courses\<close>

text \<open>
  \<^verbatim>\<open>body.count\<close> is read from parsed JSON, so it is a string or a number; the
  query parameter is always a string. A number is given by its rendering
  \<^verbatim>\<open>String(n)\<close>, which is what \<^verbatim>\<open>parseInt\<close> reads; the number is zero,
  and so falsy, exactly when the rendering is \<^verbatim>\<open>"0"\<close>.
\<close>

datatype count_value = CountText string | CountNumber string

definition truthy_count :: "count_value option \<Rightarrow> bool" where
  "truthy_count v =
     (case v of
        None \<Rightarrow> False
      | Some (CountText s) \<Rightarrow> s \<noteq> []
      | Some (CountNumber rendering) \<Rightarrow> rendering \<noteq> ''0'')"

text \<open>
  \<^verbatim>\<open>parseInt(s, 10)\<close>: leading white space is skipped, one sign is read, then
  the longest run of decimal digits; \<open>None\<close> is \<^verbatim>\<open>NaN\<close>. Characters are
  single bytes here, so the white space is TAB, LF, VT, FF, CR, SP and NBSP.
\<close>

definition is_space :: "char \<Rightarrow> bool" where
  "is_space c = (of_char c \<in> {9, 10, 11, 12, 13, 32, 160 :: nat})"

definition is_digit :: "char \<Rightarrow> bool" where
  "is_digit c = (c \<in> set ''0123456789'')"

definition digits_value :: "string \<Rightarrow> nat" where
  "digits_value ds = foldl (\<lambda>acc c. acc * 10 + (of_char c - 48)) 0 ds"

definition parseInt :: "string \<Rightarrow> int option" where
  "parseInt s =
     (let t = dropWhile is_space s;
          negative = (case t of c # _ \<Rightarrow> c = CHR ''-'' | [] \<Rightarrow> False);
          u = (case t of c # r \<Rightarrow> if c = CHR ''-'' \<or> c = CHR ''+'' then r else t | [] \<Rightarrow> []);
          ds = takeWhile is_digit u
      in if ds = [] then None
         else Some (if negative then - int (digits_value ds) else int (digits_value ds)))"

definition parseInt_value :: "count_value \<Rightarrow> int option" where
  "parseInt_value v =
     (case v of CountText s \<Rightarrow> parseInt s | CountNumber rendering \<Rightarrow> parseInt rendering)"

text \<open>
  \<^verbatim>\<open>const countParam = searchParams.get("count") || body.count || "50"\<close>
  \<^verbatim>\<open>const count = Math.min(Math.max(parseInt(countParam, 10) || 50, 1), 200)\<close>
\<close>

definition countParam :: "string option \<Rightarrow> count_value option \<Rightarrow> count_value" where
  "countParam query body_count =
     (if truthy query then CountText (the query)
      else if truthy_count body_count then the body_count
      else CountText ''50'')"

definition seed_count :: "string option \<Rightarrow> count_value option \<Rightarrow> int" where
  "seed_count query body_count =
     (let parsed = parseInt_value (countParam query body_count);
          wanted = (case parsed of None \<Rightarrow> 50 | Some n \<Rightarrow> if n = 0 then 50 else n)
      in min (max wanted 1) 200)"

record template =
  t_title :: string
  t_description :: string
  t_category :: string
  t_tags :: "string list"
  t_price :: rat
  t_duration :: rat

definition courseTemplates :: "template list" where
  "courseTemplates =
    [\<lparr>t_title = ''Introduction to Web Development'',
      t_description = ''Learn the fundamentals of web development including HTML, CSS, and JavaScript.'',
      t_category = ''Web Development'',
      t_tags = [''html'', ''css'', ''javascript'', ''beginner''],
      t_price = 4999 / 100, t_duration = 120\<rparr>,
     \<lparr>t_title = ''Advanced React Patterns'',
      t_description = ''Master advanced React patterns and best practices for building scalable applications.'',
      t_category = ''Web Development'',
      t_tags = [''react'', ''javascript'', ''advanced''],
      t_price = 7999 / 100, t_duration = 180\<rparr>,
     \<lparr>t_title = ''Full-Stack Next.js Development'',
      t_description = ''Build complete full-stack applications with Next.js, React, and TypeScript.'',
      t_category = ''Web Development'',
      t_tags = [''nextjs'', ''react'', ''typescript'', ''fullstack''],
      t_price = 9999 / 100, t_duration = 240\<rparr>,
     \<lparr>t_title = ''Python for Data Science'',
      t_description = ''Learn Python programming and data analysis with pandas, numpy, and matplotlib.'',
      t_category = ''Data Science'',
      t_tags = [''python'', ''data-science'', ''pandas'', ''numpy''],
      t_price = 8999 / 100, t_duration = 200\<rparr>,
     \<lparr>t_title = ''Machine Learning Fundamentals'',
      t_description = ''Introduction to machine learning algorithms and their applications.'',
      t_category = ''Data Science'',
      t_tags = [''machine-learning'', ''ai'', ''python'', ''scikit-learn''],
      t_price = 12999 / 100, t_duration = 300\<rparr>,
     \<lparr>t_title = ''UI/UX Design Principles'',
      t_description = ''Master the principles of user interface and user experience design.'',
      t_category = ''Design'',
      t_tags = [''design'', ''ui'', ''ux'', ''figma''],
      t_price = 6999 / 100, t_duration = 150\<rparr>,
     \<lparr>t_title = ''Mobile App Development with React Native'',
      t_description = ''Build cross-platform mobile apps using React Native.'',
      t_category = ''Mobile Development'',
      t_tags = [''react-native'', ''mobile'', ''javascript''],
      t_price = 9499 / 100, t_duration = 220\<rparr>,
     \<lparr>t_title = ''Docker and Kubernetes'',
      t_description = ''Learn containerization and orchestration with Docker and Kubernetes.'',
      t_category = ''DevOps'',
      t_tags = [''docker'', ''kubernetes'', ''devops'', ''containers''],
      t_price = 10999 / 100, t_duration = 250\<rparr>,
     \<lparr>t_title = ''GraphQL API Development'',
      t_description = ''Build efficient APIs with GraphQL and Apollo Server.'',
      t_category = ''Backend Development'',
      t_tags = [''graphql'', ''api'', ''apollo'', ''nodejs''],
      t_price = 8499 / 100, t_duration = 190\<rparr>,
     \<lparr>t_title = ''TypeScript Mastery'',
      t_description = ''Master TypeScript for building type-safe applications.'',
      t_category = ''Programming'',
      t_tags = [''typescript'', ''javascript'', ''programming''],
      t_price = 7499 / 100, t_duration = 160\<rparr>]"

fun show_nat :: "nat \<Rightarrow> string" where
  "show_nat n =
     (if n < 10 then [''0123456789'' ! n]
      else show_nat (n div 10) @ [''0123456789'' ! (n mod 10)])"

text \<open>
  \<^verbatim>\<open>getSeededImageUrl(seed, 800, 450)\<close> of \<^verbatim>\<open>lib/image-helpers.ts\<close> for a string
  seed: the seed number is the sum of the character codes.
\<close>

definition getSeededImageUrl :: "string \<Rightarrow> string" where
  "getSeededImageUrl seed =
     ''https://picsum.photos/seed/'' @ show_nat (sum_list (map of_char seed)) @ ''/800/450''"

text \<open>
  The body of the generating loop and the record posted for it. The posted
  record carries \<^verbatim>\<open>priceCents\<close> and no \<^verbatim>\<open>price\<close>. The creation date,
  which is the clock reading minus \<open>i\<close> days, is left out.
\<close>

definition seed_course :: "string \<Rightarrow> string option \<Rightarrow> nat \<Rightarrow> nat \<Rightarrow> course" where
  "seed_course now owner count i =
     (let tpl = courseTemplates ! (i mod length courseTemplates);
          variation = i div length courseTemplates
      in no_fields
          \<lparr>title := Some (if variation > 0
                           then t_title tpl @ '' - Part '' @ show_nat (variation + 1)
                           else t_title tpl),
           description := Some (t_description tpl),
           owner_id := owner,
           video_link := Some (''https://example.com/video/course-'' @ show_nat (i + 1)),
           thumbnail_url := Some (getSeededImageUrl (''course-'' @ show_nat (i + 1))),
           price := Some (t_price tpl + of_nat variation * 10),
           status := Some (if i < (count * 8) div 10 then ''published'' else ''draft''),
           duration := Some (t_duration tpl + of_nat variation * 20),
           category := Some (t_category tpl),
           tags := Some (t_tags tpl),
           updated_at := Some now\<rparr>)"

definition courseData :: "course \<Rightarrow> course" where
  "courseData c =
     c\<lparr>priceCents := Some (Math_round (the (price c) * 100)), price := None\<rparr>"

text \<open>
  The posting loop: batches of five, each record posted once. \<open>accepts\<close> is
  the answer of the external service for a record; the counters are the
  \<^verbatim>\<open>successCount\<close> and \<^verbatim>\<open>errorCount\<close> of the route.
\<close>

function post_batches :: "(course \<Rightarrow> bool) \<Rightarrow> course list \<Rightarrow> nat \<times> nat \<Rightarrow> nat \<times> nat" where
  "post_batches accepts cs (successCount, errorCount) =
     (if cs = [] then (successCount, errorCount)
      else
        let batch = map courseData (take 5 cs)
        in post_batches accepts (drop 5 cs)
             (successCount + length (filter accepts batch),
              errorCount + length (filter (\<lambda>c. \<not> accepts c) batch)))"
  by pat_completeness auto
termination
  by (relation "measure (\<lambda>(accepts, cs, counters). length cs)") auto

declare post_batches.simps [simp del]

record seed_report =
  requested :: int
  created :: nat
  errors :: nat

text \<open>
  The seeding handler: 401 without a verified member, otherwise the report.
  A body that does not parse is read as \<^verbatim>\<open>{}\<close>, so \<open>body_count\<close> is then
  \<open>None\<close>.
\<close>

definition POST_seed_courses ::
  "server \<Rightarrow> (course \<Rightarrow> bool) \<Rightarrow> string option \<Rightarrow> string option \<Rightarrow> count_value option
     \<Rightarrow> response + seed_report" where
  "POST_seed_courses srv accepts authHeader query body_count =
     (if \<not> configured srv then Inl (respond 500 (ErrorBody ''Server configuration error''))
      else (case required_member srv authHeader of
        Inl r \<Rightarrow> Inl r
      | Inr m \<Rightarrow>
          (let count = seed_count query body_count;
               seeded = map (seed_course (now_route srv)
                               (or_else (member_id m) (memberId m)) (nat count))
                          [0 ..< nat count];
               counters = post_batches accepts seeded (0, 0)
           in Inr \<lparr>requested = count, created = fst counters, errors = snd counters\<rparr>)))"

section \<open>Token resolution after login\<close>

text \<open>
  The result of \<^verbatim>\<open>ms.loginMemberEmailPassword\<close>, as far as
  \<^verbatim>\<open>loginMember\<close> of \<^verbatim>\<open>lib/memberstack-client.ts\<close> probes it. The result
  itself and each nested object may be absent.
\<close>

record token_holder =
  holder_token :: "string option"
  holder_accessToken :: "string option"

record result_data =
  tokens_accessToken :: "string option option"
  data_token :: "string option"
  data_accessToken :: "string option"
  data_member :: "token_holder option"

record login_result =
  data :: "result_data option"
  result_token :: "string option"
  result_accessToken :: "string option"
  result_member :: "token_holder option"

text \<open>
  A call of an SDK method returns a value or throws. The SDK instance has each
  token method or not (\<open>None\<close>: \<^verbatim>\<open>typeof\<close> is not \<^verbatim>\<open>'function'\<close>), and three
  direct properties.
\<close>

datatype 'a outcome = Returns 'a | Throws

record memberstack =
  getToken :: "string option outcome option"
  getAccessToken :: "string option outcome option"
  getSessionToken :: "string option outcome option"
  ms_token :: "string option"
  ms_accessToken :: "string option"
  ms_sessionToken :: "string option"

text \<open>
  \<^verbatim>\<open>result?.data?.tokens?.accessToken || result?.data?.token || result?.token
  || result?.data?.accessToken || result?.accessToken\<close>
\<close>

definition response_token :: "login_result option \<Rightarrow> string option" where
  "response_token result =
     or_else
       (or_else
         (or_else
           (or_else
             (case result of None \<Rightarrow> None | Some r \<Rightarrow>
                (case data r of None \<Rightarrow> None | Some d \<Rightarrow>
                   (case tokens_accessToken d of None \<Rightarrow> None | Some t \<Rightarrow> t)))
             (case result of None \<Rightarrow> None | Some r \<Rightarrow>
                (case data r of None \<Rightarrow> None | Some d \<Rightarrow> data_token d)))
           (case result of None \<Rightarrow> None | Some r \<Rightarrow> result_token r))
         (case result of None \<Rightarrow> None | Some r \<Rightarrow>
            (case data r of None \<Rightarrow> None | Some d \<Rightarrow> data_accessToken d)))
       (case result of None \<Rightarrow> None | Some r \<Rightarrow> result_accessToken r)"

text \<open>The \<^verbatim>\<open>if / else if\<close> chain over the SDK instance; \<open>token\<close> is kept when no branch fires.\<close>

definition sdk_token :: "memberstack \<Rightarrow> string option \<Rightarrow> string option outcome" where
  "sdk_token ms token =
     (case getToken ms of Some call \<Rightarrow> call | None \<Rightarrow>
      (case getAccessToken ms of Some call \<Rightarrow> call | None \<Rightarrow>
       (case getSessionToken ms of Some call \<Rightarrow> call | None \<Rightarrow>
          Returns (if truthy (ms_token ms) then ms_token ms
                   else if truthy (ms_accessToken ms) then ms_accessToken ms
                   else if truthy (ms_sessionToken ms) then ms_sessionToken ms
                   else token))))"

text \<open>
  \<^verbatim>\<open>if (!token && holder) { token = holder.token || holder.accessToken }\<close>
\<close>

definition holder_fallback :: "token_holder option \<Rightarrow> string option \<Rightarrow> string option" where
  "holder_fallback holder token =
     (case holder of
        None \<Rightarrow> token
      | Some h \<Rightarrow>
          if \<not> truthy token then or_else (holder_token h) (holder_accessToken h) else token)"

text \<open>The body of the \<^verbatim>\<open>try\<close> block.\<close>

definition sdk_block :: "memberstack \<Rightarrow> login_result option \<Rightarrow> string option \<Rightarrow> string option outcome" where
  "sdk_block ms result token =
     (case sdk_token ms token of
        Throws \<Rightarrow> Throws
      | Returns t \<Rightarrow>
          Returns
            (holder_fallback (case result of None \<Rightarrow> None | Some r \<Rightarrow> result_member r)
               (holder_fallback
                  (case result of None \<Rightarrow> None | Some r \<Rightarrow>
                     (case data r of None \<Rightarrow> None | Some d \<Rightarrow> data_member d))
                  t)))"

text \<open>\<^verbatim>\<open>try { block } catch (error) { }\<close> around an assignment to \<open>token\<close>.\<close>

definition try_catch :: "'a outcome \<Rightarrow> 'a \<Rightarrow> 'a outcome" where
  "try_catch block unchanged = (case block of Throws \<Rightarrow> Returns unchanged | Returns v \<Rightarrow> Returns v)"

definition resolve_token :: "memberstack \<Rightarrow> login_result option \<Rightarrow> string option outcome" where
  "resolve_token ms result =
     (let token = response_token result in
      if \<not> truthy token then try_catch (sdk_block ms result token) token
      else Returns token)"

text \<open>
  The rest of \<^verbatim>\<open>loginMember\<close>, run in the browser (\<^verbatim>\<open>window\<close> is defined):
  a truthy token is written to the storage under \<^verbatim>\<open>memberstack_token\<close>, and
  the login result is returned.
\<close>

definition loginMember ::
  "memberstack \<Rightarrow> login_result option \<Rightarrow> (string \<rightharpoonup> string)
     \<Rightarrow> (login_result option \<times> (string \<rightharpoonup> string)) outcome" where
  "loginMember ms result localStorage =
     (case resolve_token ms result of
        Throws \<Rightarrow> Throws
      | Returns token \<Rightarrow>
          Returns (result,
            if truthy token then localStorage(''memberstack_token'' \<mapsto> the token)
            else localStorage))"

section \<open>Listing filter of the courses page\<close>

text \<open>
  \<^verbatim>\<open>toLowerCase\<close> on characters that are single bytes: the letters A to Z are
  lowered, every other byte is kept. Cased letters beyond ASCII are outside
  the model.
\<close>

definition lower_char :: "char \<Rightarrow> char" where
  "lower_char c =
     (case map_of (zip ''ABCDEFGHIJKLMNOPQRSTUVWXYZ'' ''abcdefghijklmnopqrstuvwxyz'') c of
        None \<Rightarrow> c
      | Some l \<Rightarrow> l)"

definition toLowerCase :: "string \<Rightarrow> string" where
  "toLowerCase s = map lower_char s"

text \<open>\<^verbatim>\<open>s.includes(q)\<close>: \<open>q\<close> occurs in \<open>s\<close> as a contiguous run.\<close>

fun includes_str :: "string \<Rightarrow> string \<Rightarrow> bool" where
  "includes_str [] q = (q = [])"
| "includes_str (c # s) q = (take (length q) (c # s) = q \<or> includes_str s q)"

definition field_matches :: "string option \<Rightarrow> string \<Rightarrow> bool" where
  "field_matches field query =
     (case field of None \<Rightarrow> False | Some s \<Rightarrow> includes_str (toLowerCase s) query)"

definition matches_search :: "course \<Rightarrow> string \<Rightarrow> bool" where
  "matches_search c query =
     (field_matches (title c) query \<or>
      field_matches (description c) query \<or>
      field_matches (category c) query \<or>
      (case tags c of
         None \<Rightarrow> False
       | Some ts \<Rightarrow> list_ex (\<lambda>tag. includes_str (toLowerCase tag) query) ts))"

definition price_or_zero :: "course \<Rightarrow> rat" where
  "price_or_zero c = (if truthy_num (price c) then the (price c) else 0)"

text \<open>
  The effect that recomputes \<^verbatim>\<open>filteredCourses\<close>. \<^verbatim>\<open>Array.prototype.sort\<close> is
  stable, as \<open>sort_key\<close> is. \<open>getTime\<close> reads a creation date as a time
  stamp; a date that does not parse (a time stamp of \<^verbatim>\<open>NaN\<close>) is outside the
  model. \<open>shuffle\<close> stands for the order the random comparator of the
  "rating" choice leaves.
\<close>

definition created_time :: "(string \<Rightarrow> int) \<Rightarrow> course \<Rightarrow> int" where
  "created_time getTime c =
     (if truthy (created_at c) then getTime (the (created_at c)) else 0)"

definition filterCourses ::
  "(string \<Rightarrow> int) \<Rightarrow> (course list \<Rightarrow> course list) \<Rightarrow> course list
     \<Rightarrow> string \<Rightarrow> string \<Rightarrow> string \<Rightarrow> string \<Rightarrow> course list" where
  "filterCourses getTime shuffle base selectedCategory searchQuery priceFilter sortBy =
     (let by_category =
            (if selectedCategory \<noteq> ''all''
             then filter (\<lambda>c. category c = Some selectedCategory) base else base);
          by_search =
            (if searchQuery \<noteq> []
             then filter (\<lambda>c. matches_search c (toLowerCase searchQuery)) by_category
             else by_category);
          by_price =
            (if priceFilter = ''free''
             then filter (\<lambda>c. \<not> truthy_num (price c) \<or> price c = Some 0) by_search
             else if priceFilter = ''paid''
             then filter (\<lambda>c. truthy_num (price c) \<and> the (price c) > 0) by_search
             else by_search)
      in if sortBy = ''price-low'' then sort_key price_or_zero by_price
         else if sortBy = ''price-high'' then sort_key (\<lambda>c. - price_or_zero c) by_price
         else if sortBy = ''rating'' then shuffle by_price
         else if sortBy = ''newest'' then sort_key (\<lambda>c. - created_time getTime c) by_price
         else by_price)"

section \<open>Example data\<close>

text \<open>
  A configured server with two members and two courses of the first member,
  one a draft with a price of 49.99 and one published.
\<close>

definition alice :: member where
  "alice = \<lparr>member_id = Some ''mem_alice'', memberId = Some ''mem_alice''\<rparr>"

definition bob :: member where
  "bob = \<lparr>member_id = Some ''mem_bob'', memberId = Some ''mem_bob''\<rparr>"

definition demo_verify :: "string \<Rightarrow> member option" where
  "demo_verify t =
     (if t = ''tok_alice'' then Some alice
      else if t = ''tok_bob'' then Some bob else None)"

definition draft_course :: course where
  "draft_course =
     no_fields\<lparr>cid := Some ''c1'', title := Some ''Sketches'',
       owner_id := Some ''mem_alice'', status := Some ''draft'',
       priceCents := Some 4999\<rparr>"

definition open_course :: course where
  "open_course =
     no_fields\<lparr>cid := Some ''c2'', title := Some ''Basics'',
       owner_id := Some ''mem_alice'', status := Some ''published''\<rparr>"

definition demo_server :: server where
  "demo_server =
     \<lparr>secretKey = Some ''sk'', appId = Some ''app'', verifyToken = demo_verify,
      courses = [draft_course, open_course], now_route = ''T1'', now_admin = ''T2''\<rparr>"

text \<open>The two courses of the listing example.\<close>

definition intro_js :: course where
  "intro_js =
     no_fields\<lparr>title := Some ''Intro to JS'', category := Some ''Web Development'',
       price := Some 0\<rparr>"

definition ml :: course where
  "ml = no_fields\<lparr>title := Some ''ML'', category := Some ''Data Science'', price := Some 50\<rparr>"

text \<open>A rounding that is off by the full relative error of a double, away from zero.\<close>

definition rounding_up :: "rat \<Rightarrow> rat" where
  "rounding_up x = x + x / 2 ^ 53"

text \<open>A login result whose only token is \<^verbatim>\<open>data.tokens.accessToken\<close>.\<close>

definition only_bundle_token :: "string \<Rightarrow> login_result" where
  "only_bundle_token t =
     \<lparr>data = Some \<lparr>tokens_accessToken = Some (Some t), data_token = None,
                    data_accessToken = None, data_member = None\<rparr>,
      result_token = None, result_accessToken = None, result_member = None\<rparr>"

text \<open>A login result with every probed object present and no token in any of them.\<close>

definition tokenless_result :: login_result where
  "tokenless_result =
     \<lparr>data = Some \<lparr>tokens_accessToken = Some None, data_token = None,
                    data_accessToken = None,
                    data_member = Some \<lparr>holder_token = None, holder_accessToken = None\<rparr>\<rparr>,
      result_token = None, result_accessToken = None,
      result_member = Some \<lparr>holder_token = None, holder_accessToken = None\<rparr>\<rparr>"

text \<open>An SDK instance with no login state at all, and one whose \<^verbatim>\<open>getToken\<close> throws.\<close>

definition bare_sdk :: memberstack where
  "bare_sdk =
     \<lparr>getToken = None, getAccessToken = None, getSessionToken = None,
      ms_token = None, ms_accessToken = None, ms_sessionToken = None\<rparr>"

definition failing_sdk :: memberstack where
  "failing_sdk = bare_sdk\<lparr>getToken := Some Throws\<rparr>"

section \<open>Conditions the statements below are phrased with\<close>

text \<open>
  No token at any place \<^verbatim>\<open>loginMember\<close> probes on the result: the five
  response paths and the two member objects. The result or any nested object
  may be missing altogether.
\<close>

definition holder_has_no_token :: "token_holder option \<Rightarrow> bool" where
  "holder_has_no_token holder =
     (case holder of
        None \<Rightarrow> True
      | Some h \<Rightarrow> holder_token h = None \<and> holder_accessToken h = None)"

definition result_has_no_token :: "login_result option \<Rightarrow> bool" where
  "result_has_no_token result =
     (case result of
        None \<Rightarrow> True
      | Some r \<Rightarrow>
          result_token r = None \<and> result_accessToken r = None \<and>
          holder_has_no_token (result_member r) \<and>
          (case data r of
             None \<Rightarrow> True
           | Some d \<Rightarrow>
               (tokens_accessToken d = None \<or> tokens_accessToken d = Some None) \<and>
               data_token d = None \<and> data_accessToken d = None \<and>
               holder_has_no_token (data_member d)))"

text \<open>
  The SDK offers no token by any of the ways the source tries under its comment
  \<^verbatim>\<open>// Try all possible methods\<close>: none of the three functions, none of the
  three properties.
\<close>

definition sdk_has_no_token :: "memberstack \<Rightarrow> bool" where
  "sdk_has_no_token ms =
     (getToken ms = None \<and> getAccessToken ms = None \<and> getSessionToken ms = None \<and>
      ms_token ms = None \<and> ms_accessToken ms = None \<and> ms_sessionToken ms = None)"

text \<open>
  The rounding of a double operation in the standard model: the result is
  within the relative error \<open>u\<close> of the exact one. For doubles rounded to
  nearest \<open>u\<close> is \<open>2\<^sup>-\<^sup>5\<^sup>3\<close>, as long as the result neither underflows nor
  overflows. Only results of size one hundredth and more are constrained, so
  nothing is assumed where a double may underflow.
\<close>

definition rounds_within :: "rat \<Rightarrow> (rat \<Rightarrow> rat) \<Rightarrow> bool" where
  "rounds_within u fl = (\<forall>x. 1 / 100 \<le> \<bar>x\<bar> \<longrightarrow> \<bar>fl x - x\<bar> \<le> u * \<bar>x\<bar>)"

section \<open>Unfolding rules\<close>

lemmas demo_defs =
  alice_def bob_def demo_verify_def draft_course_def open_course_def demo_server_def
  no_fields_def

lemmas api_defs =
  GET_course_def GET_courses_def PUT_course_def DELETE_course_def configured_def
  truthy_def truthy_num_def or_else_def bearer_def optional_member_def
  required_member_def getCourse_def read_price_def isPublished_def isOwner_def
  respond_def listCourses_def processCourse_def overwrite_def apply_update_def
  updateCourse_def deleteCourse_def Math_round_def strip_updates_def
  derive_priceCents_def

lemmas seed_defs =
  seed_count_def countParam_def parseInt_value_def parseInt_def is_space_def
  is_digit_def digits_value_def truthy_count_def truthy_def Let_def

lemmas filter_defs =
  filterCourses_def matches_search_def field_matches_def toLowerCase_def
  lower_char_def truthy_num_def price_or_zero_def created_time_def truthy_def Let_def

section \<open>Authentication\<close>

lemma required_member_Inr:
  "required_member srv h = Inr m \<Longrightarrow>
   \<exists>token. bearer h = Some token \<and> token \<noteq> [] \<and> verifyToken srv token = Some m"
  by (auto simp: required_member_def split: option.splits if_splits)

lemma required_member_verified:
  "bearer h = Some token \<Longrightarrow> token \<noteq> [] \<Longrightarrow> verifyToken srv token = Some m \<Longrightarrow>
   required_member srv h = Inr m"
  by (simp add: required_member_def)

lemma required_member_status:
  "required_member srv h = Inl r \<Longrightarrow> http_status r = 401"
  by (auto simp: required_member_def respond_def split: option.splits if_splits)

section \<open>The table after an update\<close>

lemma cid_apply_update: "cid (apply_update u row) = cid row"
  by (simp add: apply_update_def)

lemma find_updated_rows:
  "find (\<lambda>c. cid c = Some k) (map (\<lambda>c. if cid c = Some k then apply_update u c else c) rows) =
   map_option (apply_update u) (find (\<lambda>c. cid c = Some k) rows)"
  by (induction rows) (simp_all add: cid_apply_update)

lemma getCourse_after_update:
  assumes "updateCourse srv courseId updates = Some (srv', c)"
  shows "getCourse srv' courseId = Some c"
proof -
  from assms obtain row where row: "getCourse srv courseId = Some row"
    by (auto simp: updateCourse_def Let_def split: option.splits)
  with assms show ?thesis
    by (auto simp: updateCourse_def getCourse_def Let_def find_updated_rows)
qed

lemma updateCourse_result:
  assumes "getCourse srv courseId = Some row"
  shows "\<exists>srv'. updateCourse srv courseId updates =
           Some (srv', apply_update (updates\<lparr>updated_at := Some (now_admin srv)\<rparr>) row)"
  using assms by (simp add: updateCourse_def Let_def)

text \<open>What a PUT of the owner stores and answers, for any parsed body.\<close>

lemma PUT_course_owner_success:
  assumes "configured srv" and "getCourse srv courseId = Some row"
    and "required_member srv h = Inr m"
    and "owner_id row = or_else (member_id m) (memberId m)"
  shows "\<exists>srv'. PUT_course srv h courseId (Parsed b) =
           (respond 200 (CourseBody
              ((apply_update ((derive_priceCents (strip_updates srv b))
                                \<lparr>updated_at := Some (now_admin srv)\<rparr>) row)
                 \<lparr>price := Some (read_price
                     (apply_update ((derive_priceCents (strip_updates srv b))
                                      \<lparr>updated_at := Some (now_admin srv)\<rparr>) row))\<rparr>)),
            srv') \<and>
           getCourse srv' courseId =
             Some (apply_update ((derive_priceCents (strip_updates srv b))
                                   \<lparr>updated_at := Some (now_admin srv)\<rparr>) row)"
proof -
  let ?u = "derive_priceCents (strip_updates srv b)"
  from updateCourse_result [OF assms(2), of ?u] obtain srv' where
    u: "updateCourse srv courseId ?u =
          Some (srv', apply_update (?u\<lparr>updated_at := Some (now_admin srv)\<rparr>) row)"
    by blast
  from getCourse_after_update [OF u] u assms show ?thesis
    by (simp add: PUT_course_def Let_def)
qed

text \<open>A body without \<^verbatim>\<open>owner_id\<close> leaves the stored owner as it was.\<close>

lemma PUT_course_keeps_owner_without_owner_field:
  assumes "configured srv" and "getCourse srv courseId = Some row"
    and "owner_id b = None"
  shows "map_option owner_id (getCourse (snd (PUT_course srv h courseId (Parsed b))) courseId) =
         Some (owner_id row)"
proof (cases "required_member srv h")
  case (Inl r)
  with assms show ?thesis by (simp add: PUT_course_def)
next
  case (Inr m)
  show ?thesis
  proof (cases "owner_id row = or_else (member_id m) (memberId m)")
    case False
    with Inr assms show ?thesis by (simp add: PUT_course_def Let_def)
  next
    case True
    from PUT_course_owner_success [OF assms(1,2) Inr True, of b] assms(3) show ?thesis
      by (auto simp: apply_update_def overwrite_def derive_priceCents_def strip_updates_def)
  qed
qed

text \<open>
  A body whose price is not zero has \<^verbatim>\<open>priceCents\<close> derived from it, and
  \<^verbatim>\<open>updated_at\<close> is the clock reading of \<^verbatim>\<open>updateCourse\<close> whatever the body
  says.
\<close>

lemma PUT_course_rederives_nonzero_price:
  assumes "configured srv" and "getCourse srv courseId = Some row"
    and "required_member srv h = Inr m"
    and "owner_id row = or_else (member_id m) (memberId m)"
    and "price b = Some p" and "p \<noteq> 0"
  shows "map_option priceCents (getCourse (snd (PUT_course srv h courseId (Parsed b))) courseId) =
           Some (Some (Math_round (p * 100))) \<and>
         map_option updated_at (getCourse (snd (PUT_course srv h courseId (Parsed b))) courseId) =
           Some (Some (now_admin srv))"
  using PUT_course_owner_success [OF assms(1-4), of b] assms(5,6)
  by (auto simp: apply_update_def overwrite_def derive_priceCents_def strip_updates_def
        truthy_num_def)

section \<open>The anonymous course list\<close>

lemma GET_courses_anonymous_published_only:
  assumes "optional_member srv h = None" and "\<not> truthy ownerId"
    and "GET_courses srv h ownerId = respond 200 (CoursesBody cs)"
  shows "\<forall>c \<in> set cs. status c = Some ''published''"
  using assms
  by (auto simp: GET_courses_def respond_def split: if_splits)

section \<open>The seeding loop\<close>

lemma post_batches_Nil: "post_batches accepts [] (s, e) = (s, e)"
  by (simp add: post_batches.simps)

lemma post_batches_step:
  "cs \<noteq> [] \<Longrightarrow>
   post_batches accepts cs (s, e) =
   post_batches accepts (drop 5 cs)
     (s + length (filter accepts (map courseData (take 5 cs))),
      e + length (filter (\<lambda>c. \<not> accepts c) (map courseData (take 5 cs))))"
  by (subst post_batches.simps) (simp add: Let_def)

text \<open>Every generated record is posted exactly once, whatever the service answers.\<close>

lemma post_batches_total:
  "fst (post_batches accepts cs (s, e)) + snd (post_batches accepts cs (s, e)) =
   s + e + length cs"
proof (induction cs arbitrary: s e rule: length_induct)
  case (1 cs)
  show ?case
  proof (cases "cs = []")
    case True
    then show ?thesis by (simp add: post_batches_Nil)
  next
    case False
    then have shorter: "length (drop 5 cs) < length cs" by (cases cs) auto
    have split: "length (filter accepts (map courseData (take 5 cs))) +
                 length (filter (\<lambda>c. \<not> accepts c) (map courseData (take 5 cs))) =
                 min (length cs) 5"
      using sum_length_filter_compl [of accepts "map courseData (take 5 cs)"] by simp
    from "1.IH" shorter have
      "fst (post_batches accepts (drop 5 cs)
             (s + length (filter accepts (map courseData (take 5 cs))),
              e + length (filter (\<lambda>c. \<not> accepts c) (map courseData (take 5 cs))))) +
       snd (post_batches accepts (drop 5 cs)
             (s + length (filter accepts (map courseData (take 5 cs))),
              e + length (filter (\<lambda>c. \<not> accepts c) (map courseData (take 5 cs))))) =
       (s + length (filter accepts (map courseData (take 5 cs)))) +
       (e + length (filter (\<lambda>c. \<not> accepts c) (map courseData (take 5 cs)))) +
       length (drop 5 cs)"
      by blast
    with split show ?thesis
      by (simp add: post_batches_step [OF False])
  qed
qed

lemma post_batches_all_accepted:
  "post_batches (\<lambda>c. True) cs (s, e) = (s + length cs, e)"
proof (induction cs arbitrary: s e rule: length_induct)
  case (1 cs)
  show ?case
  proof (cases "cs = []")
    case True
    then show ?thesis by (simp add: post_batches_Nil)
  next
    case False
    then have shorter: "length (drop 5 cs) < length cs" by (cases cs) auto
    from "1.IH" shorter have
      "post_batches (\<lambda>c. True) (drop 5 cs) (s + min (length cs) 5, e) =
       (s + min (length cs) 5 + length (drop 5 cs), e)"
      by blast
    then show ?thesis
      by (simp add: post_batches_step [OF False])
  qed
qed

text \<open>The count always lies between 1 and 200; the two ends of the clamp.\<close>

lemma seed_count_bounds:
  "1 \<le> seed_count query body_count \<and> seed_count query body_count \<le> 200"
  by (simp add: seed_count_def Let_def)

lemma seed_count_examples:
  "seed_count (Some ''200'') None = 200"
  "seed_count (Some ''201'') None = 200"
  "seed_count (Some ''-7'') None = 1"
  "seed_count None None = 50"
  "seed_count (Some ''abc'') None = 50"
  "seed_count None (Some (CountNumber ''7'')) = 7"
  "seed_count None (Some (CountNumber ''0'')) = 50"
  "seed_count None (Some (CountNumber ''1e+21'')) = 1"
  by (simp_all add: seed_defs)

section \<open>The price round trip with rounded operations\<close>

lemma read_price_rounded_exact: "read_price_rounded (\<lambda>x. x) c = read_price c"
  by (simp add: read_price_rounded_def read_price_def)

lemma fl_error:
  assumes "rounds_within u fl" and "u \<le> 1 / 2 ^ 53" and "1 / 100 \<le> \<bar>x\<bar>"
  shows "\<bar>fl x - x\<bar> \<le> \<bar>x\<bar> / 2 ^ 53"
proof -
  from assms(1,3) have "\<bar>fl x - x\<bar> \<le> u * \<bar>x\<bar>"
    by (simp add: rounds_within_def)
  also from assms(2) have "u * \<bar>x\<bar> \<le> (1 / 2 ^ 53) * \<bar>x\<bar>"
    by (intro mult_right_mono) simp_all
  finally show ?thesis by simp
qed

lemma Math_round_near: "\<bar>Math_round y - y\<bar> \<le> 1 / 2"
proof -
  have "of_int \<lfloor>y + 1 / 2\<rfloor> \<le> y + 1 / 2" and "y + 1 / 2 < of_int \<lfloor>y + 1 / 2\<rfloor> + 1"
    by linarith+
  then show ?thesis unfolding Math_round_def by linarith
qed

lemma Math_round_eq:
  assumes "\<bar>y - of_int n\<bar> < 1 / 2"
  shows "Math_round y = of_int n"
proof -
  from assms have "of_int n \<le> y + 1 / 2" and "y + 1 / 2 < of_int n + 1"
    by linarith+
  then have "\<lfloor>y + 1 / 2\<rfloor> = n" by (simp add: floor_eq_iff)
  then show ?thesis by (simp add: Math_round_def)
qed

lemma Math_round_int: "\<exists>n. Math_round y = of_int n"
  by (auto simp: Math_round_def)

lemma price_round_trip_cents:
  "price_round_trip fl p =
     (if p = 0 \<or> Math_round (fl (p * 100)) = 0 then 0
      else fl (Math_round (fl (p * 100)) / 100))"
  by (simp add: price_round_trip_def created_priceCents_def read_price_rounded_def
        truthy_num_def no_fields_def)

text \<open>
  A price read back from \<open>n\<close> cents, multiplied by 100 again: the product is
  within three relative errors of \<open>n\<close>.
\<close>

lemma cents_again:
  fixes n :: int
  assumes rw: "rounds_within u fl" and u: "u \<le> 1 / 2 ^ 53" and n: "n \<noteq> 0"
  defines "a \<equiv> \<bar>of_int n :: rat\<bar>"
  defines "q \<equiv> fl (of_int n / 100)"
  shows "\<bar>q * 100 - of_int n\<bar> \<le> a / 2 ^ 53"
    and "\<bar>fl (q * 100) - of_int n\<bar> \<le> 3 * a / 2 ^ 53"
proof -
  define e where "e = a / 2 ^ 53"
  have e: "e * 9007199254740992 = a" by (simp add: e_def)
  have a1: "1 \<le> a" using n by (simp add: a_def)
  have "1 / 100 \<le> \<bar>of_int n / 100 :: rat\<bar>" using a1 by (simp add: a_def)
  from fl_error [OF rw u this] have "\<bar>q - of_int n / 100\<bar> \<le> (a / 100) / 2 ^ 53"
    by (simp add: q_def a_def)
  then have "\<bar>q - of_int n / 100\<bar> \<le> e / 100" by (simp add: e_def)
  then have z: "\<bar>q * 100 - of_int n\<bar> \<le> e" by linarith
  then show "\<bar>q * 100 - of_int n\<bar> \<le> a / 2 ^ 53" by (simp add: e_def)
  from z a1 e have zl: "1 / 100 \<le> \<bar>q * 100\<bar>" and zu: "\<bar>q * 100\<bar> \<le> 2 * a"
    unfolding a_def by linarith+
  from fl_error [OF rw u zl]
  have "\<bar>fl (q * 100) - q * 100\<bar> \<le> \<bar>q * 100\<bar> / 9007199254740992"
    by simp
  with zu e have "\<bar>fl (q * 100) - q * 100\<bar> \<le> 2 * e" by linarith
  with z have "\<bar>fl (q * 100) - of_int n\<bar> \<le> 3 * e"
    by linarith
  then show "\<bar>fl (q * 100) - of_int n\<bar> \<le> 3 * a / 2 ^ 53" by (simp add: e_def)
qed

lemma cents_price_nonzero:
  fixes n :: int
  assumes rw: "rounds_within u fl" and u: "u \<le> 1 / 2 ^ 53" and n: "n \<noteq> 0"
  shows "fl (of_int n / 100) \<noteq> 0"
    and "\<bar>of_int n\<bar> - \<bar>of_int n\<bar> / 2 ^ 53 \<le> 100 * \<bar>fl (of_int n / 100)\<bar>"
proof -
  define e where "e = \<bar>of_int n :: rat\<bar> / 2 ^ 53"
  have e: "e * 9007199254740992 = \<bar>of_int n :: rat\<bar>" by (simp add: e_def)
  have a1: "1 \<le> \<bar>of_int n :: rat\<bar>" using n by simp
  from cents_again(1) [OF rw u n] have z: "\<bar>fl (of_int n / 100) * 100 - of_int n\<bar> \<le> e"
    by (simp add: e_def)
  with a1 e show "fl (of_int n / 100) \<noteq> 0" by auto
  from z have "\<bar>of_int n\<bar> - e \<le> 100 * \<bar>fl (of_int n / 100)\<bar>" by linarith
  then show "\<bar>of_int n\<bar> - \<bar>of_int n\<bar> / 2 ^ 53 \<le> 100 * \<bar>fl (of_int n / 100)\<bar>"
    by (simp add: e_def)
qed

text \<open>Up to \<open>2\<^sup>5\<^sup>0\<close> cents the second trip finds the same number of cents.\<close>

lemma round_trip_of_cents_exact:
  fixes n :: int
  assumes rw: "rounds_within u fl" and u: "u \<le> 1 / 2 ^ 53" and n: "n \<noteq> 0"
    and small: "\<bar>of_int n :: rat\<bar> \<le> 2 ^ 50"
  shows "price_round_trip fl (fl (of_int n / 100)) = fl (of_int n / 100)"
proof -
  define q where "q = fl (of_int n / 100)"
  have q0: "q \<noteq> 0" unfolding q_def by (rule cents_price_nonzero(1) [OF rw u n])
  from cents_again(2) [OF rw u n]
  have "\<bar>fl (q * 100) - of_int n\<bar> \<le> 3 * \<bar>of_int n :: rat\<bar> / 9007199254740992"
    by (simp add: q_def)
  with small have "\<bar>fl (q * 100) - of_int n\<bar> < 1 / 2" by simp
  then have m: "Math_round (fl (q * 100)) = of_int n" by (rule Math_round_eq)
  with n q0 have "price_round_trip fl q = fl (of_int n / 100)"
    by (simp add: price_round_trip_cents)
  then show ?thesis by (simp add: q_def)
qed

text \<open>
  Beyond, the cents found differ by at most seven relative errors, and the
  price by at most \<open>2\<^sup>-\<^sup>4\<^sup>9\<close> of itself.
\<close>

lemma round_trip_of_cents_close:
  fixes n :: int
  assumes rw: "rounds_within u fl" and u: "u \<le> 1 / 2 ^ 53" and n: "n \<noteq> 0"
    and large: "2 ^ 50 < \<bar>of_int n :: rat\<bar>"
  shows "\<bar>price_round_trip fl (fl (of_int n / 100)) - fl (of_int n / 100)\<bar>
         \<le> \<bar>fl (of_int n / 100)\<bar> / 2 ^ 49"
proof -
  define a where "a = \<bar>of_int n :: rat\<bar>"
  define e where "e = a / 2 ^ 53"
  define q where "q = fl (of_int n / 100)"
  have e: "e * 9007199254740992 = a" by (simp add: e_def)
  from large have a50: "1125899906842624 < a" by (simp add: a_def)
  have q0: "q \<noteq> 0" unfolding q_def by (rule cents_price_nonzero(1) [OF rw u n])
  from cents_price_nonzero(2) [OF rw u n] have ql: "a - e \<le> 100 * \<bar>q\<bar>"
    by (simp add: q_def a_def e_def)
  from cents_again(1) [OF rw u n] have qn: "\<bar>q * 100 - of_int n\<bar> \<le> e"
    by (simp add: q_def a_def e_def)
  from cents_again(2) [OF rw u n] have y: "\<bar>fl (q * 100) - of_int n\<bar> \<le> 3 * e"
    by (simp add: q_def a_def e_def)
  obtain m :: int where m: "Math_round (fl (q * 100)) = of_int m"
    using Math_round_int by blast
  from Math_round_near [of "fl (q * 100)"] m have "\<bar>of_int m - fl (q * 100)\<bar> \<le> 1 / 2"
    by simp
  with y a50 e have mn: "\<bar>(of_int m :: rat) - of_int n\<bar> \<le> 7 * e" by linarith
  with a50 e have mu: "\<bar>of_int m :: rat\<bar> \<le> 2 * a" and ml: "1 \<le> \<bar>of_int m :: rat\<bar>"
    unfolding a_def by linarith+
  from ml have m0: "m \<noteq> 0" by auto
  from ml have "1 / 100 \<le> \<bar>of_int m / 100 :: rat\<bar>" by simp
  from fl_error [OF rw u this]
  have "\<bar>fl (of_int m / 100) - of_int m / 100\<bar> \<le> (\<bar>of_int m\<bar> / 100) / 9007199254740992"
    by simp
  with mu e have q': "\<bar>fl (of_int m / 100) - of_int m / 100\<bar> \<le> 2 * e / 100" by linarith
  from m m0 q0 have r: "price_round_trip fl q = fl (of_int m / 100)"
    by (simp add: price_round_trip_cents)
  from q' mn qn have d: "\<bar>fl (of_int m / 100) - q\<bar> \<le> e / 10" by linarith
  define t where "t = \<bar>q\<bar> / 2 ^ 49"
  have t: "t * 562949953421312 = \<bar>q\<bar>" by (simp add: t_def)
  have t0: "0 \<le> t" by (simp add: t_def)
  from ql t e t0 a50 have "e / 10 \<le> t" by linarith
  with d r show ?thesis by (simp add: q_def t_def)
qed

section \<open>Token resolution\<close>

lemma response_token_none: "result_has_no_token result \<Longrightarrow> response_token result = None"
  by (auto simp: result_has_no_token_def response_token_def or_else_def truthy_def
        split: option.splits)

text \<open>\<^verbatim>\<open>loginMember\<close> returns the login result it was given and touches one storage key.\<close>

lemma loginMember_returns_result:
  "\<exists>storage.
     loginMember ms result localStorage = Returns (result, storage) \<and>
     (\<forall>k. k \<noteq> ''memberstack_token'' \<longrightarrow> storage k = localStorage k)"
  by (cases "resolve_token ms result")
     (auto simp: loginMember_def resolve_token_def try_catch_def Let_def
        split: if_splits outcome.splits)

section \<open>Claims\<close>

subsection \<open>C4: a hidden course and a missing course look the same to an anonymous reader\<close>

text \<open>
  Claim C4. For every existing course whose status, read with the default
  "published" for an absent status, is not "published", a GET of the course
  without an Authorization header is answered 404, the status a course that
  does not exist is answered with.
\<close>

theorem GET_course_anonymous_unpublished_404:
  assumes "configured srv"
    and "getCourse srv courseId = Some c"
    and "(case status c of None \<Rightarrow> ''published'' | Some s \<Rightarrow> s) \<noteq> ''published''"
    and "getCourse srv missingId = None"
  shows "http_status (GET_course srv None courseId) = 404 \<and>
         http_status (GET_course srv None missingId) = 404"
  using assms
  by (auto simp: GET_course_def optional_member_def bearer_def isPublished_def isOwner_def
        respond_def split: option.splits)

theorem GET_course_anonymous_unpublished_404_witness:
  "configured demo_server \<and> getCourse demo_server ''c1'' = Some draft_course \<and>
   (case status draft_course of None \<Rightarrow> ''published'' | Some s \<Rightarrow> s) \<noteq> ''published'' \<and>
   getCourse demo_server ''c9'' = None \<and>
   http_status (GET_course demo_server None ''c1'') = 404 \<and>
   http_status (GET_course demo_server None ''c9'') = 404"
proof -
  have a: "configured demo_server"
    by (simp add: demo_defs configured_def truthy_def)
  have b: "getCourse demo_server ''c1'' = Some draft_course"
    by (simp add: demo_defs getCourse_def)
  have c: "(case status draft_course of None \<Rightarrow> ''published'' | Some s \<Rightarrow> s) \<noteq> ''published''"
    by (simp add: demo_defs)
  have d: "getCourse demo_server ''c9'' = None"
    by (simp add: demo_defs getCourse_def)
  show ?thesis
    using a b c d GET_course_anonymous_unpublished_404 [OF a b c d] by simp
qed

subsection \<open>C10: a token that does not verify reads as no token\<close>

text \<open>
  Claim C10. On GET of a single course a bearer token that fails verification
  is not answered 401. The response is the one the same request gets without
  any header: a published course is returned with status 200, a course with
  another status is answered 404.
\<close>

theorem GET_course_invalid_token_is_anonymous:
  assumes "bearer authHeader = Some token" and "verifyToken srv token = None"
  shows "GET_course srv authHeader courseId = GET_course srv None courseId \<and>
         http_status (GET_course srv authHeader courseId) \<noteq> 401 \<and>
         (configured srv \<and> getCourse srv courseId = Some c \<and> status c = Some ''published'' \<longrightarrow>
            GET_course srv authHeader courseId =
              respond 200 (CourseBody (c\<lparr>price := Some (read_price c)\<rparr>))) \<and>
         (configured srv \<and> getCourse srv courseId = Some c \<and>
          status c \<noteq> Some ''published'' \<and> status c \<noteq> None \<longrightarrow>
            http_status (GET_course srv authHeader courseId) = 404)"
  using assms
  by (auto simp: GET_course_def optional_member_def bearer_def isPublished_def isOwner_def
        respond_def split: option.splits if_splits)

theorem GET_course_invalid_token_is_anonymous_witness:
  "bearer (Some ''Bearer stale'') = Some ''stale'' \<and>
   verifyToken demo_server ''stale'' = None \<and>
   GET_course demo_server (Some ''Bearer stale'') ''c2'' =
     respond 200 (CourseBody (open_course\<lparr>price := Some 0\<rparr>)) \<and>
   GET_course demo_server (Some ''Bearer stale'') ''c2'' = GET_course demo_server None ''c2'' \<and>
   http_status (GET_course demo_server (Some ''Bearer stale'') ''c1'') = 404 \<and>
   GET_course demo_server (Some ''Bearer stale'') ''c1'' = GET_course demo_server None ''c1''"
proof -
  have a: "bearer (Some ''Bearer stale'') = Some ''stale''"
    by (simp add: bearer_def)
  have b: "verifyToken demo_server ''stale'' = None"
    by (simp add: demo_defs)
  have c: "configured demo_server"
    by (simp add: demo_defs configured_def truthy_def)
  have d1: "getCourse demo_server ''c1'' = Some draft_course"
    and d2: "getCourse demo_server ''c2'' = Some open_course"
    by (simp_all add: demo_defs getCourse_def)
  have e1: "status draft_course \<noteq> Some ''published'' \<and> status draft_course \<noteq> None"
    and e2: "status open_course = Some ''published''"
    and e3: "read_price open_course = 0"
    by (simp_all add: demo_defs read_price_def truthy_num_def)
  note hidden = GET_course_invalid_token_is_anonymous [OF a b, of "''c1''" draft_course]
  note shown = GET_course_invalid_token_is_anonymous [OF a b, of "''c2''" open_course]
  from shown c d2 e2 have
    "GET_course demo_server (Some ''Bearer stale'') ''c2'' =
       respond 200 (CourseBody (open_course\<lparr>price := Some (read_price open_course)\<rparr>))"
    by blast
  then have s1:
    "GET_course demo_server (Some ''Bearer stale'') ''c2'' =
       respond 200 (CourseBody (open_course\<lparr>price := Some 0\<rparr>))"
    by (simp only: e3)
  from shown have s2:
    "GET_course demo_server (Some ''Bearer stale'') ''c2'' = GET_course demo_server None ''c2''"
    by blast
  from hidden c d1 e1 have h1:
    "http_status (GET_course demo_server (Some ''Bearer stale'') ''c1'') = 404"
    by blast
  from hidden have h2:
    "GET_course demo_server (Some ''Bearer stale'') ''c1'' = GET_course demo_server None ''c1''"
    by blast
  show ?thesis
    by (intro conjI a b s1 s2 h1 h2)
qed

subsection \<open>C3: only the owner's token updates or deletes\<close>

text \<open>
  Claim C3 says that on every PUT or DELETE of an existing course a valid
  token of a member who is not the owner is answered 403. The PUT handler
  parses the body before it reads the course, so such a request with a body
  that is not JSON is answered 500: here the second member puts an empty body
  to the first member's draft.
\<close>

theorem PUT_course_other_member_unparsed_body_500:
  "configured demo_server \<and> getCourse demo_server ''c1'' = Some draft_course \<and>
   bearer (Some ''Bearer tok_bob'') = Some ''tok_bob'' \<and>
   verifyToken demo_server ''tok_bob'' = Some bob \<and>
   or_else (member_id bob) (memberId bob) \<noteq> owner_id draft_course \<and>
   http_status (fst (PUT_course demo_server (Some ''Bearer tok_bob'') ''c1''
      (Unparsed ''Unexpected end of JSON input''))) = 500"
  by (simp add: demo_defs api_defs)

text \<open>
  Claim C3 as amended. On a configured server and for an existing course, a
  PUT or DELETE is answered 200 only when the request bears a token that
  verifies to a member whose identifier is the stored owner identifier. A
  request with a verified token of any other member leaves the server state
  as it was and is answered 403, except a PUT whose body does not parse,
  which is answered 500.
\<close>

theorem mutation_requires_owner_token:
  assumes "configured srv" and "getCourse srv courseId = Some c"
  shows
    "(http_status (fst (PUT_course srv h courseId body)) = 200 \<longrightarrow>
        (\<exists>token m. bearer h = Some token \<and> verifyToken srv token = Some m \<and>
                    owner_id c = or_else (member_id m) (memberId m))) \<and>
     (http_status (fst (DELETE_course srv h courseId)) = 200 \<longrightarrow>
        (\<exists>token m. bearer h = Some token \<and> verifyToken srv token = Some m \<and>
                    owner_id c = or_else (member_id m) (memberId m))) \<and>
     (\<forall>token m. bearer h = Some token \<and> token \<noteq> [] \<and> verifyToken srv token = Some m \<and>
                 owner_id c \<noteq> or_else (member_id m) (memberId m) \<longrightarrow>
        http_status (fst (DELETE_course srv h courseId)) = 403 \<and>
        snd (DELETE_course srv h courseId) = srv \<and>
        snd (PUT_course srv h courseId body) = srv \<and>
        http_status (fst (PUT_course srv h courseId body)) = (case body of Unparsed message \<Rightarrow> 500 | Parsed b \<Rightarrow> 403))"
proof (intro conjI impI allI)
  assume ok: "http_status (fst (PUT_course srv h courseId body)) = 200"
  then obtain m where m: "required_member srv h = Inr m"
    using assms required_member_status
    by (cases "required_member srv h") (auto simp: PUT_course_def)
  from ok m assms have "owner_id c = or_else (member_id m) (memberId m)"
    by (auto simp: PUT_course_def respond_def split: option.splits json_body.splits if_splits)
  with required_member_Inr [OF m]
  show "\<exists>token m. bearer h = Some token \<and> verifyToken srv token = Some m \<and>
                  owner_id c = or_else (member_id m) (memberId m)"
    by blast
next
  assume ok: "http_status (fst (DELETE_course srv h courseId)) = 200"
  then obtain m where m: "required_member srv h = Inr m"
    using assms required_member_status
    by (cases "required_member srv h") (auto simp: DELETE_course_def)
  from ok m assms have "owner_id c = or_else (member_id m) (memberId m)"
    by (auto simp: DELETE_course_def respond_def split: option.splits if_splits)
  with required_member_Inr [OF m]
  show "\<exists>token m. bearer h = Some token \<and> verifyToken srv token = Some m \<and>
                  owner_id c = or_else (member_id m) (memberId m)"
    by blast
next
  fix token m
  assume a: "bearer h = Some token \<and> token \<noteq> [] \<and> verifyToken srv token = Some m \<and>
             owner_id c \<noteq> or_else (member_id m) (memberId m)"
  then have m: "required_member srv h = Inr m"
    by (simp add: required_member_verified)
  show "http_status (fst (DELETE_course srv h courseId)) = 403"
    using a m assms by (simp add: DELETE_course_def respond_def)
  show "snd (DELETE_course srv h courseId) = srv"
    using a m assms by (simp add: DELETE_course_def respond_def)
  show "snd (PUT_course srv h courseId body) = srv"
    using a m assms by (simp add: PUT_course_def respond_def split: json_body.splits)
  show "http_status (fst (PUT_course srv h courseId body)) = (case body of Unparsed message \<Rightarrow> 500 | Parsed b \<Rightarrow> 403)"
    using a m assms by (auto simp add: PUT_course_def respond_def split: json_body.splits)
qed

theorem mutation_requires_owner_token_witness:
  "configured demo_server \<and> getCourse demo_server ''c1'' = Some draft_course \<and>
   bearer (Some ''Bearer tok_bob'') = Some ''tok_bob'' \<and> ''tok_bob'' \<noteq> [] \<and>
   verifyToken demo_server ''tok_bob'' = Some bob \<and>
   owner_id draft_course \<noteq> or_else (member_id bob) (memberId bob) \<and>
   http_status (fst (DELETE_course demo_server (Some ''Bearer tok_bob'') ''c1'')) = 403 \<and>
   snd (DELETE_course demo_server (Some ''Bearer tok_bob'') ''c1'') = demo_server \<and>
   snd (PUT_course demo_server (Some ''Bearer tok_bob'') ''c1'' (Parsed no_fields)) = demo_server \<and>
   http_status (fst (PUT_course demo_server (Some ''Bearer tok_bob'') ''c1'' (Parsed no_fields))) = 403 \<and>
   http_status (fst (PUT_course demo_server (Some ''Bearer tok_alice'') ''c1'' (Parsed no_fields))) = 200 \<and>
   (\<exists>token m. bearer (Some ''Bearer tok_alice'') = Some token \<and>
               verifyToken demo_server token = Some m \<and>
               owner_id draft_course = or_else (member_id m) (memberId m))"
proof -
  have a: "configured demo_server"
    by (simp add: demo_defs configured_def truthy_def)
  have b: "getCourse demo_server ''c1'' = Some draft_course"
    by (simp add: demo_defs getCourse_def)
  have c: "bearer (Some ''Bearer tok_bob'') = Some ''tok_bob'' \<and> ''tok_bob'' \<noteq> [] \<and>
           verifyToken demo_server ''tok_bob'' = Some bob \<and>
           owner_id draft_course \<noteq> or_else (member_id bob) (memberId bob)"
    by (simp add: demo_defs bearer_def or_else_def truthy_def)
  have d: "http_status (fst (PUT_course demo_server (Some ''Bearer tok_alice'') ''c1''
             (Parsed no_fields))) = 200"
    by (simp add: demo_defs api_defs)
  note others = mutation_requires_owner_token
    [OF a b, of "Some ''Bearer tok_bob''" "Parsed no_fields"]
  note owners = mutation_requires_owner_token
    [OF a b, of "Some ''Bearer tok_alice''" "Parsed no_fields"]
  from others c have e:
    "http_status (fst (DELETE_course demo_server (Some ''Bearer tok_bob'') ''c1'')) = 403 \<and>
     snd (DELETE_course demo_server (Some ''Bearer tok_bob'') ''c1'') = demo_server \<and>
     snd (PUT_course demo_server (Some ''Bearer tok_bob'') ''c1'' (Parsed no_fields)) = demo_server \<and>
     http_status (fst (PUT_course demo_server (Some ''Bearer tok_bob'') ''c1'' (Parsed no_fields))) = 403"
    by simp
  from owners d have f:
    "\<exists>token m. bearer (Some ''Bearer tok_alice'') = Some token \<and>
                verifyToken demo_server token = Some m \<and>
                owner_id draft_course = or_else (member_id m) (memberId m)"
    by blast
  show ?thesis using a b c d e f by simp
qed

subsection \<open>C1: what the course list returns to a signed-in member\<close>

text \<open>
  Claim C1 says that a signed-in caller of GET /api/courses without an owner
  filter receives the published courses and their own unpublished ones, and
  nobody another member's unpublished courses. The handler filters by status
  only when there is no member, so the second member receives the first
  member's draft. (The single-course GET answers 404 for the same draft and the
  same caller, and the courses page filters on "published or mine".)
\<close>

theorem GET_courses_member_receives_foreign_draft:
  "optional_member demo_server (Some ''Bearer tok_bob'') = Some bob \<and>
   or_else (member_id bob) (memberId bob) = Some ''mem_bob'' \<and>
   owner_id draft_course = Some ''mem_alice'' \<and> status draft_course = Some ''draft'' \<and>
   GET_courses demo_server (Some ''Bearer tok_bob'') None =
     respond 200 (CoursesBody [processCourse draft_course, processCourse open_course]) \<and>
   http_status (GET_course demo_server (Some ''Bearer tok_bob'') ''c1'') = 404"
  by (simp add: demo_defs api_defs)

subsection \<open>C2: the owner field under PUT\<close>

text \<open>
  Claim C2 says that no PUT changes a course's owner identifier, whatever the
  body holds. The handler deletes \<^verbatim>\<open>id\<close> and \<^verbatim>\<open>created_at\<close> from the
  updates and nothing else, so an \<^verbatim>\<open>owner_id\<close> in the body reaches the table:
  the first member's PUT hands the draft to the second member.
\<close>

theorem PUT_course_body_overwrites_owner_id:
  "getCourse demo_server ''c1'' = Some draft_course \<and>
   owner_id draft_course = Some ''mem_alice'' \<and>
   owner_id (derive_priceCents (strip_updates demo_server
       (no_fields\<lparr>owner_id := Some ''mem_bob''\<rparr>))) = Some ''mem_bob'' \<and>
   http_status (fst (PUT_course demo_server (Some ''Bearer tok_alice'') ''c1''
       (Parsed (no_fields\<lparr>owner_id := Some ''mem_bob''\<rparr>)))) = 200 \<and>
   map_option owner_id
     (getCourse (snd (PUT_course demo_server (Some ''Bearer tok_alice'') ''c1''
        (Parsed (no_fields\<lparr>owner_id := Some ''mem_bob''\<rparr>)))) ''c1'') =
     Some (Some ''mem_bob'')"
  by (simp add: demo_defs api_defs)

subsection \<open>C7: a price of zero under PUT\<close>

text \<open>
  Claim C7 says that an owner's PUT with a price field, zero included, stores
  \<^verbatim>\<open>priceCents = round(price * 100)\<close>. The handler tests \<^verbatim>\<open>if (updates.price)\<close>,
  which a price of 0 fails: the stored 4999 cents stay, and the course still
  reads as 49.99. (The creating POST maps a price of 0 to 0 cents.)
\<close>

theorem PUT_course_price_zero_keeps_priceCents:
  "getCourse demo_server ''c1'' = Some draft_course \<and>
   priceCents draft_course = Some 4999 \<and>
   Math_round (0 * 100) = 0 \<and>
   priceCents (derive_priceCents (strip_updates demo_server
       (no_fields\<lparr>price := Some 0\<rparr>))) = None \<and>
   http_status (fst (PUT_course demo_server (Some ''Bearer tok_alice'') ''c1''
       (Parsed (no_fields\<lparr>price := Some 0\<rparr>)))) = 200 \<and>
   map_option priceCents
     (getCourse (snd (PUT_course demo_server (Some ''Bearer tok_alice'') ''c1''
        (Parsed (no_fields\<lparr>price := Some 0\<rparr>)))) ''c1'') =
     Some (Some 4999) \<and>
   map_option read_price
     (getCourse (snd (PUT_course demo_server (Some ''Bearer tok_alice'') ''c1''
        (Parsed (no_fields\<lparr>price := Some 0\<rparr>)))) ''c1'') =
     Some (4999 / 100)"
  by (simp add: demo_defs api_defs floor_eq_iff)

subsection \<open>C5: the seeding count\<close>

text \<open>
  Claim C5 says that the number of records the seeding endpoint tries to
  create is the requested count clamped to 1..200, a count of 0 giving 1. The
  handler computes \<^verbatim>\<open>parseInt(countParam, 10) || 50\<close> before it clamps, and 0
  is falsy: \<^verbatim>\<open>?count=0\<close> posts 50 records.
\<close>

theorem seed_count_zero_is_fifty:
  "seed_count (Some ''0'') None = 50 \<and>
   POST_seed_courses demo_server (\<lambda>c. True) (Some ''Bearer tok_alice'') (Some ''0'') None =
     Inr \<lparr>requested = 50, created = 50, errors = 0\<rparr>"
proof -
  have n: "seed_count (Some ''0'') None = 50"
    by (simp add: seed_defs)
  have m: "required_member demo_server (Some ''Bearer tok_alice'') = Inr alice"
    by (simp add: required_member_def bearer_def demo_defs)
  have c: "configured demo_server"
    by (simp add: configured_def truthy_def demo_defs)
  show ?thesis
    using n m c by (simp add: POST_seed_courses_def post_batches_all_accepted Let_def)
qed

subsection \<open>C6: the token a login resolves to\<close>

text \<open>
  Claim C6. Given a login result with a token at \<^verbatim>\<open>data.tokens.accessToken\<close>,
  the first place probed, the resolution yields that value, whatever else the
  result holds and whatever the SDK instance offers. Given a result with no
  token at any probed place and an SDK instance that offers none, it yields
  null. Whatever the result and the SDK instance are, also when an SDK method
  throws, the resolution itself does not throw.
\<close>

theorem resolve_token_bundle_or_null:
  "(data r = Some d \<and> tokens_accessToken d = Some (Some t) \<and> t \<noteq> [] \<longrightarrow>
      resolve_token ms (Some r) = Returns (Some t)) \<and>
   (result_has_no_token result \<and> sdk_has_no_token ms \<longrightarrow>
      resolve_token ms result = Returns None) \<and>
   resolve_token ms result \<noteq> Throws"
proof (intro conjI impI)
  assume "data r = Some d \<and> tokens_accessToken d = Some (Some t) \<and> t \<noteq> []"
  then show "resolve_token ms (Some r) = Returns (Some t)"
    by (simp add: resolve_token_def response_token_def or_else_def truthy_def)
next
  assume a: "result_has_no_token result \<and> sdk_has_no_token ms"
  then have r: "response_token result = None"
    by (simp add: response_token_none)
  from a have s: "sdk_token ms None = Returns None"
    by (simp add: sdk_has_no_token_def sdk_token_def truthy_def)
  from a have h:
    "holder_fallback (case result of None \<Rightarrow> None | Some r \<Rightarrow> result_member r)
       (holder_fallback
          (case result of None \<Rightarrow> None | Some r \<Rightarrow>
             (case data r of None \<Rightarrow> None | Some d \<Rightarrow> data_member d))
          None) = None"
    by (auto simp: result_has_no_token_def holder_has_no_token_def holder_fallback_def
          or_else_def truthy_def split: option.splits)
  show "resolve_token ms result = Returns None"
    using r s h by (simp add: resolve_token_def sdk_block_def try_catch_def truthy_def)
next
  show "resolve_token ms result \<noteq> Throws"
    by (simp add: resolve_token_def try_catch_def Let_def split: outcome.splits)
qed

theorem resolve_token_bundle_or_null_witness:
  "data (only_bundle_token ''tok_alice'') =
     Some \<lparr>tokens_accessToken = Some (Some ''tok_alice''), data_token = None,
           data_accessToken = None, data_member = None\<rparr> \<and>
   ''tok_alice'' \<noteq> [] \<and>
   resolve_token failing_sdk (Some (only_bundle_token ''tok_alice'')) = Returns (Some ''tok_alice'') \<and>
   result_has_no_token (Some tokenless_result) \<and> sdk_has_no_token bare_sdk \<and>
   resolve_token bare_sdk (Some tokenless_result) = Returns None \<and>
   resolve_token failing_sdk (Some tokenless_result) \<noteq> Throws"
proof -
  let ?d = "\<lparr>tokens_accessToken = Some (Some ''tok_alice''), data_token = None,
             data_accessToken = None, data_member = None\<rparr>"
  have a: "data (only_bundle_token ''tok_alice'') = Some ?d"
    by (simp add: only_bundle_token_def)
  have a': "tokens_accessToken ?d = Some (Some ''tok_alice'')" and a'': "''tok_alice'' \<noteq> []"
    by simp_all
  have b1: "result_has_no_token (Some tokenless_result)"
    by (simp add: result_has_no_token_def holder_has_no_token_def tokenless_result_def)
  have b2: "sdk_has_no_token bare_sdk"
    by (simp add: sdk_has_no_token_def bare_sdk_def)
  note found = resolve_token_bundle_or_null
    [of "only_bundle_token ''tok_alice''" ?d "''tok_alice''" failing_sdk "Some tokenless_result"]
  note absent = resolve_token_bundle_or_null
    [of "only_bundle_token ''tok_alice''" ?d "''tok_alice''" bare_sdk "Some tokenless_result"]
  from found a a' a'' have c:
    "resolve_token failing_sdk (Some (only_bundle_token ''tok_alice'')) = Returns (Some ''tok_alice'')"
    by blast
  from found have d: "resolve_token failing_sdk (Some tokenless_result) \<noteq> Throws"
    by blast
  from absent b1 b2 have e: "resolve_token bare_sdk (Some tokenless_result) = Returns None"
    by blast
  show ?thesis
    by (intro conjI a a'' c b1 b2 e d)
qed

subsection \<open>C8: the listing filter on the two-course list\<close>

text \<open>
  Claim C8. On the list of "Intro to JS" (Web Development, price 0) and "ML"
  (Data Science, price 50), with the other inputs at their defaults: the
  category "Web Development" leaves exactly the first course, the price filter
  "paid" exactly the second, and the search text "intro", in either case of
  letters, exactly the first. The search looks for the lower-cased text in the
  lower-cased title, description, category and each tag.
\<close>

theorem filterCourses_listing_examples:
  "filterCourses getTime shuffle [intro_js, ml] ''Web Development'' [] ''all'' ''newest'' = [intro_js] \<and>
   filterCourses getTime shuffle [intro_js, ml] ''all'' [] ''paid'' ''newest'' = [ml] \<and>
   filterCourses getTime shuffle [intro_js, ml] ''all'' ''intro'' ''all'' ''newest'' = [intro_js] \<and>
   filterCourses getTime shuffle [intro_js, ml] ''all'' ''INTRO'' ''all'' ''newest'' = [intro_js] \<and>
   (\<forall>c query. matches_search c query \<longleftrightarrow>
      (\<exists>s. (title c = Some s \<or> description c = Some s \<or> category c = Some s \<or>
            (\<exists>ts. tags c = Some ts \<and> s \<in> set ts)) \<and>
           includes_str (toLowerCase s) query))"
proof -
  have examples:
    "filterCourses getTime shuffle [intro_js, ml] ''Web Development'' [] ''all'' ''newest'' = [intro_js]"
    "filterCourses getTime shuffle [intro_js, ml] ''all'' [] ''paid'' ''newest'' = [ml]"
    "filterCourses getTime shuffle [intro_js, ml] ''all'' ''intro'' ''all'' ''newest'' = [intro_js]"
    "filterCourses getTime shuffle [intro_js, ml] ''all'' ''INTRO'' ''all'' ''newest'' = [intro_js]"
    by (simp_all add: filter_defs intro_js_def ml_def no_fields_def)
  have search: "matches_search c query \<longleftrightarrow>
      (\<exists>s. (title c = Some s \<or> description c = Some s \<or> category c = Some s \<or>
            (\<exists>ts. tags c = Some ts \<and> s \<in> set ts)) \<and>
           includes_str (toLowerCase s) query)" for c query
    by (auto simp: matches_search_def field_matches_def list_ex_iff split: option.splits)
  from examples search show ?thesis by blast
qed

theorem filterCourses_listing_examples_witness:
  "filterCourses (\<lambda>s. 0) rev [intro_js, ml] ''Web Development'' [] ''all'' ''newest'' = [intro_js] \<and>
   filterCourses (\<lambda>s. 0) rev [intro_js, ml] ''all'' [] ''paid'' ''newest'' = [ml] \<and>
   filterCourses (\<lambda>s. 0) rev [intro_js, ml] ''all'' ''intro'' ''all'' ''newest'' = [intro_js] \<and>
   (matches_search intro_js ''intro'' \<longleftrightarrow>
      (\<exists>s. (title intro_js = Some s \<or> description intro_js = Some s \<or> category intro_js = Some s \<or>
            (\<exists>ts. tags intro_js = Some ts \<and> s \<in> set ts)) \<and>
           includes_str (toLowerCase s) ''intro''))"
  using filterCourses_listing_examples [of "\<lambda>s. 0" rev] by blast

subsection \<open>C9: the price round trip\<close>

text \<open>
  Claim C9. For every price (so for every price \<open>p \<ge> 0\<close>), converting to cents
  on the write path and back on the read path is idempotent within
  floating-point tolerance. With every double operation rounded within the
  relative error \<open>2\<^sup>-\<^sup>5\<^sup>3\<close>, a second round trip changes the result of the first
  by at most \<open>2\<^sup>-\<^sup>4\<^sup>9\<close> of it, and not at all when the first trip stored at most
  \<open>2\<^sup>5\<^sup>0\<close> cents.
\<close>

theorem price_round_trip_idempotent:
  assumes "rounds_within u fl" and "u \<le> 1 / 2 ^ 53"
  shows "\<bar>price_round_trip fl (price_round_trip fl p) - price_round_trip fl p\<bar>
           \<le> \<bar>price_round_trip fl p\<bar> / 2 ^ 49 \<and>
         (\<bar>created_priceCents fl (Some p)\<bar> \<le> 2 ^ 50 \<longrightarrow>
            price_round_trip fl (price_round_trip fl p) = price_round_trip fl p)"
proof (cases "p = 0 \<or> Math_round (fl (p * 100)) = 0")
  case True
  then have "price_round_trip fl p = 0" by (auto simp: price_round_trip_cents)
  then show ?thesis by (simp add: price_round_trip_cents)
next
  case False
  obtain n :: int where n: "Math_round (fl (p * 100)) = of_int n"
    using Math_round_int by blast
  with False have n0: "n \<noteq> 0" by auto
  from False n have p: "price_round_trip fl p = fl (of_int n / 100)"
    by (simp add: price_round_trip_cents)
  from False n have c: "created_priceCents fl (Some p) = of_int n"
    by (simp add: created_priceCents_def truthy_num_def)
  show ?thesis
  proof (cases "\<bar>of_int n :: rat\<bar> \<le> 2 ^ 50")
    case True
    from round_trip_of_cents_exact [OF assms n0 True] show ?thesis by (simp add: p)
  next
    case False
    then have "2 ^ 50 < \<bar>of_int n :: rat\<bar>" by simp
    from round_trip_of_cents_close [OF assms n0 this] False show ?thesis by (simp add: p c)
  qed
qed

theorem price_round_trip_idempotent_witness:
  "rounds_within (1 / 2 ^ 53) rounding_up \<and> (1 / 2 ^ 53 :: rat) \<le> 1 / 2 ^ 53 \<and>
   created_priceCents rounding_up (Some (1999 / 100)) = 1999 \<and>
   \<bar>created_priceCents rounding_up (Some (1999 / 100))\<bar> \<le> 2 ^ 50 \<and>
   price_round_trip rounding_up (price_round_trip rounding_up (1999 / 100)) =
     price_round_trip rounding_up (1999 / 100) \<and>
   \<bar>price_round_trip rounding_up (price_round_trip rounding_up (1999 / 100))
      - price_round_trip rounding_up (1999 / 100)\<bar>
     \<le> \<bar>price_round_trip rounding_up (1999 / 100)\<bar> / 2 ^ 49"
proof -
  have a: "rounds_within (1 / 2 ^ 53) rounding_up"
    by (simp add: rounds_within_def rounding_up_def)
  have b: "(1 / 2 ^ 53 :: rat) \<le> 1 / 2 ^ 53"
    by simp
  have "\<bar>rounding_up (1999 / 100 * 100) - of_int 1999\<bar> < 1 / 2"
    by (simp add: rounding_up_def)
  then have "Math_round (rounding_up (1999 / 100 * 100)) = of_int 1999"
    by (rule Math_round_eq)
  then have c: "created_priceCents rounding_up (Some (1999 / 100)) = 1999"
    by (simp add: created_priceCents_def truthy_num_def)
  then have d: "\<bar>created_priceCents rounding_up (Some (1999 / 100))\<bar> \<le> 2 ^ 50"
    by simp
  note trip = price_round_trip_idempotent [OF a b, of "1999 / 100"]
  from trip d have e:
    "price_round_trip rounding_up (price_round_trip rounding_up (1999 / 100)) =
       price_round_trip rounding_up (1999 / 100)"
    by blast
  from trip have f:
    "\<bar>price_round_trip rounding_up (price_round_trip rounding_up (1999 / 100))
        - price_round_trip rounding_up (1999 / 100)\<bar>
       \<le> \<bar>price_round_trip rounding_up (1999 / 100)\<bar> / 2 ^ 49"
    by blast
  show ?thesis
    by (intro conjI a b c d e f)
qed

end
